theory Spec2Isabelle
  imports Complex_Main
begin

section \<open>Jobs and the job queue of \<^verbatim>\<open>ai_diffusion/model.py\<close>\<close>

text \<open>
  The embedding follows the Python source. Job objects are mutable and shared between the
  queue's deque and the callers that hold a reference, so they live in an explicit store
  (field \<open>objects\<close>): a reference is an index into the store, allocation appends, and
  Python's identity comparison of jobs (class \<open>Job\<close> defines no \<open>__eq__\<close>) is equality of
  references. Exceptions are values of type \<open>error\<close>; a function that can raise returns
  \<open>error + 'a\<close>, and a result \<open>Inl e\<close> says that \<open>e\<close> was raised, not what had been written
  before. Qt signals are recorded in the order they are emitted (field \<open>emitted\<close>);
  the slot of \<open>Model\<close> that is connected to them is run by the model of the orchestrator
  where Qt runs it, and what it raises stays with Qt.

  Sizes in MB are exact rationals: the source divides a byte count by \<open>1024**2\<close> in
  floating point, whose rounding is not part of the model.
\<close>

datatype error = IndexError | ValueError | AssertionError | AttributeError

datatype State = queued | executing | finished | cancelled

datatype JobKind = diffusion | control_layer | upscaling | live_preview

record Bounds =
  x :: int
  y :: int
  width :: int
  height :: int

text \<open>
  Modelled from the spec: class \<open>Image\<close> and class \<open>ImageCollection\<close> of \<open>image.py\<close> are not
  part of the source at hand. An image is known by a handle for its pixels and by its
  byte footprint; a collection is an ordered sequence of images whose \<open>size\<close> is the
  footprint of all its images.
\<close>

datatype Image = Image (pixels: nat) (byte_count: nat)

type_synonym ImageCollection = "Image list"

definition collection_size :: "ImageCollection \<Rightarrow> nat" where
  "collection_size c = sum_list (map byte_count c)"

text \<open>The expression \<open>results.size / (1024**2)\<close>.\<close>

definition size_mb :: "ImageCollection \<Rightarrow> rat" where
  "size_mb c = of_nat (collection_size c) / 1048576"

type_synonym ref = nat

record Job =
  id' :: "string option"
  kind :: JobKind
  state :: State
  prompt :: string
  bounds :: Bounds
  control :: "ref option"
  timestamp :: nat
  results :: ImageCollection

text \<open>\<open>Job.__init__\<close>; \<open>now\<close> stands for \<open>datetime.now()\<close>.\<close>

definition Job_init :: "string option \<Rightarrow> JobKind \<Rightarrow> string \<Rightarrow> Bounds \<Rightarrow> nat \<Rightarrow> Job" where
  "Job_init i k p b now =
     \<lparr>id' = i, kind = k, state = queued, prompt = p, bounds = b, control = None,
      timestamp = now, results = []\<rparr>"

datatype Item = Item (job: string) (image: int)

datatype Signal = count_changed | selection_changed | job_finished ref

record JobQueue =
  objects :: "Job list"
  entries :: "ref list"
  selection :: "Item option"
  memory_usage :: rat
  emitted :: "Signal list"

text \<open>\<open>JobQueue.__init__\<close>, with the class attributes' defaults.\<close>

definition JobQueue_init :: JobQueue where
  "JobQueue_init =
     \<lparr>objects = [], entries = [], selection = None, memory_usage = 0, emitted = []\<rparr>"

definition emit :: "Signal \<Rightarrow> JobQueue \<Rightarrow> JobQueue" where
  "emit s q = q\<lparr>emitted := emitted q @ [s]\<rparr>"

text \<open>
  \<open>_add\<close> receives a job that its caller has just constructed: the model allocates it in the
  store and returns its reference together with the queue.
\<close>

definition add' :: "JobQueue \<Rightarrow> Job \<Rightarrow> ref \<times> JobQueue" where
  "add' q j =
     (let r = length (objects q);
          q1 = q\<lparr>objects := objects q @ [j]\<rparr>;
          q2 = q1\<lparr>entries := entries q1 @ [r]\<rparr>
      in (r, emit count_changed q2))"

definition add :: "JobQueue \<Rightarrow> string \<Rightarrow> string \<Rightarrow> Bounds \<Rightarrow> nat \<Rightarrow> ref \<times> JobQueue" where
  "add q i p b now = add' q (Job_init (Some i) diffusion p b now)"

text \<open>\<open>mode_text\<close> is \<open>control.mode.text\<close> of the control layer \<open>c\<close>.\<close>

definition add_control :: "JobQueue \<Rightarrow> ref \<Rightarrow> string \<Rightarrow> Bounds \<Rightarrow> nat \<Rightarrow> ref \<times> JobQueue" where
  "add_control q c mode_text b now =
     add' q ((Job_init None control_layer (''[Control] '' @ mode_text) b now)
                  \<lparr>control := Some c\<rparr>)"

fun digits :: "nat \<Rightarrow> string" where
  "digits n =
     (if n < 10 then [char_of (48 + n)] else digits (n div 10) @ [char_of (48 + n mod 10)])"

definition str_int :: "int \<Rightarrow> string" where
  "str_int i = (if i < 0 then CHR ''-'' # digits (nat (- i)) else digits (nat i))"

definition add_upscale :: "JobQueue \<Rightarrow> Bounds \<Rightarrow> nat \<Rightarrow> ref \<times> JobQueue" where
  "add_upscale q b now =
     add' q (Job_init None upscaling
                  (''[Upscale] '' @ str_int (width b) @ ''x'' @ str_int (height b)) b now)"

definition add_live :: "JobQueue \<Rightarrow> string \<Rightarrow> Bounds \<Rightarrow> nat \<Rightarrow> ref \<times> JobQueue" where
  "add_live q p b now = add' q (Job_init None live_preview p b now)"

text \<open>\<open>deque.remove\<close> deletes the first occurrence and raises \<open>ValueError\<close> when there is none.\<close>

definition remove :: "JobQueue \<Rightarrow> ref \<Rightarrow> error + JobQueue" where
  "remove q r =
     (if r \<in> set (entries q)
      then Inr (emit count_changed (q\<lparr>entries := remove1 r (entries q)\<rparr>))
      else Inl ValueError)"

text \<open>
  \<open>next((j for j in self._entries if j.id == id), None)\<close>: the first job in the deque with
  the id; the default of \<open>next\<close>, Python's \<open>None\<close>, is the result \<open>None\<close>.
\<close>

definition find' :: "JobQueue \<Rightarrow> string \<Rightarrow> ref option" where
  "find' q i = List.find (\<lambda>r. id' (objects q ! r) = Some i) (entries q)"

definition count :: "JobQueue \<Rightarrow> State \<Rightarrow> nat" where
  "count q s = length (filter (\<lambda>r. state (objects q ! r) = s) (entries q))"

definition any_executing :: "JobQueue \<Rightarrow> bool" where
  "any_executing q = list_ex (\<lambda>r. state (objects q ! r) = executing) (entries q)"

text \<open>Assignment to a field of the job object behind a reference.\<close>

definition update_job :: "ref \<Rightarrow> (Job \<Rightarrow> Job) \<Rightarrow> JobQueue \<Rightarrow> JobQueue" where
  "update_job r f q = q\<lparr>objects := (objects q)[r := f (objects q ! r)]\<rparr>"

definition notify_started :: "JobQueue \<Rightarrow> ref \<Rightarrow> JobQueue" where
  "notify_started q r = emit count_changed (update_job r (\<lambda>j. j\<lparr>state := executing\<rparr>) q)"

definition notify_finished :: "JobQueue \<Rightarrow> ref \<Rightarrow> JobQueue" where
  "notify_finished q r =
     emit count_changed (emit (job_finished r) (update_job r (\<lambda>j. j\<lparr>state := finished\<rparr>) q))"

text \<open>
  The loop of \<open>prune\<close>. \<open>budget\<close> is \<open>settings.history_size\<close>. The condition reads
  \<open>self._entries[0]\<close> only when the usage exceeds the budget, and that read raises
  \<open>IndexError\<close> on an empty deque.
\<close>

function prune :: "rat \<Rightarrow> JobQueue \<Rightarrow> ref \<Rightarrow> error + JobQueue" where
  "prune budget q keep =
     (if memory_usage q > budget then
        (case entries q of
           [] \<Rightarrow> Inl IndexError
         | r # rest \<Rightarrow>
             if r \<noteq> keep then
               prune budget
                 (q\<lparr>entries := rest,
                    memory_usage := memory_usage q - size_mb (results (objects q ! r))\<rparr>)
                 keep
             else Inr q)
      else Inr q)"
  by pat_completeness auto
termination
  by (relation "measure (\<lambda>(budget, q, keep). length (entries q))") auto

declare prune.simps [simp del]

definition set_results :: "rat \<Rightarrow> JobQueue \<Rightarrow> ref \<Rightarrow> ImageCollection \<Rightarrow> error + JobQueue" where
  "set_results budget q r res =
     (let q1 = update_job r (\<lambda>j. j\<lparr>results := res\<rparr>) q
      in if kind (objects q1 ! r) = diffusion
         then prune budget (q1\<lparr>memory_usage := memory_usage q1 + size_mb res\<rparr>) r
         else Inr q1)"

definition select :: "JobQueue \<Rightarrow> string \<Rightarrow> int \<Rightarrow> JobQueue" where
  "select q i index = emit selection_changed (q\<lparr>selection := Some (Item i index)\<rparr>)"

section \<open>The collaborators of the orchestrator\<close>

text \<open>
  Modelled from the spec: the host document (\<open>document.py\<close>) is not part of the source at
  hand. The model keeps what the orchestrator reads back from it: which layer nodes are
  attached to the layer tree (a detached node has no parent), the active layer, a supply of
  fresh nodes, and the calls that were made, in order.
\<close>

datatype DocCall =
    insert_layer_call string Image Bounds "nat option"
  | insert_vector_layer_call string nat "nat option"
  | set_layer_content_call nat Image Bounds
  | hide_layer_call nat
  | setName_call nat string
  | setLocked_call nat bool
  | remove_call nat

record Document =
  attached :: "nat list"
  next_node :: nat
  active_layer :: nat
  doc_calls :: "DocCall list"

definition new_node :: "DocCall \<Rightarrow> Document \<Rightarrow> nat \<times> Document" where
  "new_node c d =
     (next_node d,
      d\<lparr>attached := attached d @ [next_node d], next_node := Suc (next_node d),
        doc_calls := doc_calls d @ [c]\<rparr>)"

definition insert_layer :: "Document \<Rightarrow> string \<Rightarrow> Image \<Rightarrow> Bounds \<Rightarrow> nat option \<Rightarrow> nat \<times> Document" where
  "insert_layer d name img b below = new_node (insert_layer_call name img b below) d"

definition insert_vector_layer :: "Document \<Rightarrow> string \<Rightarrow> nat \<Rightarrow> nat option \<Rightarrow> nat \<times> Document" where
  "insert_vector_layer d name svg below = new_node (insert_vector_layer_call name svg below) d"

definition doc_call :: "DocCall \<Rightarrow> Document \<Rightarrow> Document" where
  "doc_call c d = d\<lparr>doc_calls := doc_calls d @ [c]\<rparr>"

definition remove_node :: "Document \<Rightarrow> nat \<Rightarrow> Document" where
  "remove_node d n = doc_call (remove_call n) (d\<lparr>attached := removeAll n (attached d)\<rparr>)"

text \<open>
  Modelled from the spec: \<open>ImageCollection.__getitem__\<close> is not part of the source at hand;
  it is taken to index like a Python list, negative indices counting from the end.
\<close>

definition getitem :: "ImageCollection \<Rightarrow> int \<Rightarrow> error + Image" where
  "getitem c i =
     (let n = int (length c); k = (if i < 0 then n + i else i)
      in if 0 \<le> k \<and> k < n then Inr (c ! nat k) else Inl IndexError)"

text \<open>
  Modelled from the spec: the control modes of \<open>workflow.py\<close> and the messages of
  \<open>client.py\<close> are not part of the source at hand. A message carries a job id, an event
  kind, a progress fraction, optional result images, optional structured result data (an
  opaque handle) and an error text.
\<close>

datatype ControlMode = image_mode | scribble | pose | stencil | blur | other_mode

text \<open>
  The fields of class \<open>ControlLayer\<close> that the orchestrator reads or writes, and the value
  \<open>Control(mode, image, strength, end)\<close> that \<open>ControlLayer.get_image\<close> returns. The class
  has no attribute \<open>image\<close>.
\<close>

record ControlLayer =
  mode :: ControlMode
  layer_id :: nat
  strength' :: rat
  end' :: rat

datatype Control = Control ControlMode Image rat rat

datatype ClientEvent = progress_event | finished_event | interrupted_event | error_event

record ClientMessage =
  event :: ClientEvent
  job_id :: string
  progress' :: rat
  images :: "ImageCollection option"
  result :: "nat option"
  error' :: string

datatype ConnCall = clear_queue | interrupt

record Mask =
  mask_bounds :: Bounds
  mask_image :: nat

record Conditioning =
  cond_prompt :: string
  cond_negative_prompt :: string
  cond_control :: "Control list"
  area :: "Bounds option"

text \<open>The calls into \<open>workflow.py\<close> that build a request, with their arguments (the client apart).\<close>

datatype Work =
    workflow_generate string "int \<times> int" Conditioning
  | workflow_refine string Image Conditioning rat
  | workflow_inpaint string Image Mask Conditioning
  | workflow_refine_region string Image Mask Conditioning rat

section \<open>The orchestrator: class \<open>Model\<close>\<close>

text \<open>
  The fields of \<open>Model\<close> that its operations below read or write. \<open>control_layers\<close> is the
  store of the \<open>ControlLayer\<close> objects, \<open>control'\<close> the references that the
  \<open>ControlLayerList\<close> of the orchestrator holds, in its order, \<open>logged\<close> what was written
  to \<open>util.client_logger\<close>, \<open>connection_calls\<close> the calls made on the connection, and
  \<open>unhandled\<close> the exceptions that slots raised while Qt ran them.
\<close>

record Model =
  doc :: Document
  layer :: "nat option"
  live_result :: "Image option"
  style :: string
  prompt' :: string
  negative_prompt :: string
  strength :: rat
  live_is_active :: bool
  progress :: rat
  jobs :: JobQueue
  error :: string
  can_apply_result :: bool
  control_layers :: "ControlLayer list"
  control' :: "ref list"
  logged :: "ClientMessage list"
  connection_calls :: "ConnCall list"
  unhandled :: "error list"

definition and_then :: "error + 'a \<Rightarrow> ('a \<Rightarrow> error + 'b) \<Rightarrow> error + 'b" where
  "and_then r f = (case r of Inl e \<Rightarrow> Inl e | Inr v \<Rightarrow> f v)"

definition report_progress :: "Model \<Rightarrow> rat \<Rightarrow> Model" where
  "report_progress m v = m\<lparr>progress := v\<rparr>"

definition report_error :: "Model \<Rightarrow> string \<Rightarrow> Model" where
  "report_error m message = m\<lparr>error := message, live_is_active := False\<rparr>"

definition clear_error :: "Model \<Rightarrow> Model" where
  "clear_error m = (if error m \<noteq> [] then m\<lparr>error := []\<rparr> else m)"

definition hide_preview :: "Model \<Rightarrow> Model" where
  "hide_preview m =
     (case layer m of
        None \<Rightarrow> m
      | Some l \<Rightarrow> m\<lparr>doc := doc_call (hide_layer_call l) (doc m)\<rparr>)"

text \<open>
  \<open>show_preview\<close> and \<open>update_preview\<close> run as slots, so the model keeps what they had
  written when they raise: the result is the orchestrator as the call left it, with the
  exception if one was raised. \<open>show_preview\<close> is called with the default \<open>name_prefix\<close>; a
  preview layer that has lost its parent is forgotten first, and the arguments of a call
  into the document are evaluated before the call.
\<close>

definition show_preview :: "Model \<Rightarrow> string \<Rightarrow> int \<Rightarrow> error option \<times> Model" where
  "show_preview m i index =
     (case find' (jobs m) i of
        None \<Rightarrow> (Some AssertionError, m)
      | Some r \<Rightarrow>
          (let j = objects (jobs m) ! r;
               name = ''[Preview] '' @ prompt j;
               m1 = (case layer m of
                       None \<Rightarrow> m
                     | Some l \<Rightarrow> if l \<in> set (attached (doc m)) then m else m\<lparr>layer := None\<rparr>)
           in case layer m1 of
                Some l \<Rightarrow>
                  (let m2 = m1\<lparr>doc := doc_call (setName_call l name) (doc m1)\<rparr>
                   in case getitem (results j) index of
                        Inl e \<Rightarrow> (Some e, m2)
                      | Inr img \<Rightarrow>
                          (None, m2\<lparr>doc := doc_call (set_layer_content_call l img (bounds j))
                                              (doc m2)\<rparr>))
              | None \<Rightarrow>
                  (case getitem (results j) index of
                     Inl e \<Rightarrow> (Some e, m1)
                   | Inr img \<Rightarrow>
                       (case insert_layer (doc m1) name img (bounds j) None of
                          (l, d) \<Rightarrow> (None, m1\<lparr>layer := Some l,
                                               doc := doc_call (setLocked_call l True) d\<rparr>)))))"

definition update_preview :: "Model \<Rightarrow> error option \<times> Model" where
  "update_preview m =
     (case selection (jobs m) of
        Some s \<Rightarrow>
          (case show_preview m (job s) (image s) of
             (Some e, m1) \<Rightarrow> (Some e, m1)
           | (None, m1) \<Rightarrow> (None, m1\<lparr>can_apply_result := True\<rparr>))
      | None \<Rightarrow> (None, (hide_preview m)\<lparr>can_apply_result := False\<rparr>))"

text \<open>
  \<open>Model.__init__\<close> connects \<open>update_preview\<close> to the queue's signals \<open>job_finished\<close> and
  \<open>selection_changed\<close>, and it is called from nowhere else. Qt runs the slot inside \<open>emit\<close>.
  An exception raised in a slot does not reach the emitter: PyQt hands it to the exception
  hook, or ends the process when none is installed, and \<open>emit\<close> returns. The model follows
  the run that goes on: \<open>slot\<close> records the exception and keeps what the slot had written.
  The slots of class \<open>ControlLayer\<close> write fields of control layers that the model does not
  keep.
\<close>

definition slot :: "error option \<times> Model \<Rightarrow> Model" where
  "slot outcome =
     (case outcome of
        (None, m) \<Rightarrow> m
      | (Some e, m) \<Rightarrow> m\<lparr>unhandled := unhandled m @ [e]\<rparr>)"

definition add_control_layer :: "Model \<Rightarrow> ref \<Rightarrow> nat option \<Rightarrow> error + nat \<times> Model" where
  "add_control_layer m r res =
     (let j = objects (jobs m) ! r
      in case control j of
           None \<Rightarrow> Inl AssertionError
         | Some c \<Rightarrow>
             if kind j \<noteq> control_layer then Inl AssertionError
             else if mode (control_layers m ! c) = pose \<and> res \<noteq> None then
               (case insert_vector_layer (doc m) (prompt j) (the res) (layer m) of
                  (l, d) \<Rightarrow> Inr (l, m\<lparr>doc := d\<rparr>))
             else if length (results j) > 0 then
               (case insert_layer (doc m) (prompt j) (results j ! 0) (bounds j) (layer m) of
                  (l, d) \<Rightarrow> Inr (l, m\<lparr>doc := d\<rparr>))
             else Inr (active_layer (doc m), m))"

definition add_upscale_layer :: "Model \<Rightarrow> ref \<Rightarrow> error + Model" where
  "add_upscale_layer m r =
     (let j = objects (jobs m) ! r
      in if kind j \<noteq> upscaling then Inl AssertionError
         else if \<not> length (results j) > 0 then Inl AssertionError
         else
           (let m1 = (case layer m of
                        None \<Rightarrow> m
                      | Some l \<Rightarrow> m\<lparr>doc := remove_node (doc m) l, layer := None\<rparr>)
            in case insert_layer (doc m1) (prompt j) (results j ! 0) (bounds j) None of
                 (l, d) \<Rightarrow> Inr (m1\<lparr>doc := d\<rparr>)))"

text \<open>
  \<open>cancel\<close>: the loop over \<open>to_remove\<close> stops at the first \<open>remove\<close> that raises.
\<close>

fun remove_all :: "JobQueue \<Rightarrow> ref list \<Rightarrow> error + JobQueue" where
  "remove_all q [] = Inr q"
| "remove_all q (r # rs) = and_then (remove q r) (\<lambda>q1. remove_all q1 rs)"

definition cancel :: "Model \<Rightarrow> bool \<Rightarrow> bool \<Rightarrow> error + Model" where
  "cancel m active queued' =
     and_then
       (if queued' then
          (let to_remove = filter (\<lambda>r. state (objects (jobs m) ! r) = queued) (entries (jobs m))
           in if length to_remove > 0 then
                and_then (remove_all (jobs m) to_remove)
                  (\<lambda>q. Inr (m\<lparr>connection_calls := connection_calls m @ [clear_queue], jobs := q\<rparr>))
              else Inr m)
        else Inr m)
       (\<lambda>m1. if active \<and> any_executing (jobs m1)
              then Inr (m1\<lparr>connection_calls := connection_calls m1 @ [interrupt]\<rparr>)
              else Inr m1)"

text \<open>
  The branch of \<open>handle_message\<close> for a \<open>finished\<close> event, in the order of the source:
  results (\<open>message.images\<close> is false when it is \<open>None\<close> and when it is empty), the side
  effect of the job's kind, progress, the finished notification, on which Qt runs the slot
  \<open>update_preview\<close>, then removal or selection, on which Qt runs the slot again.
\<close>

definition handle_finished :: "rat \<Rightarrow> Model \<Rightarrow> ref \<Rightarrow> ClientMessage \<Rightarrow> error + Model" where
  "handle_finished budget m r message =
     and_then
       (case images message of
          None \<Rightarrow> Inr m
        | Some imgs \<Rightarrow>
            if imgs \<noteq> [] then and_then (set_results budget (jobs m) r imgs) (\<lambda>q. Inr (m\<lparr>jobs := q\<rparr>))
            else Inr m)
       (\<lambda>m1.
          let j = objects (jobs m1) ! r in
          and_then
            (if kind j = control_layer then
               (case control j of
                  None \<Rightarrow> Inl AssertionError
                | Some c \<Rightarrow>
                    and_then (add_control_layer m1 r (result message))
                      (\<lambda>(l, m2). Inr (m2\<lparr>control_layers :=
                          (control_layers m2)[c := (control_layers m2 ! c)\<lparr>layer_id := l\<rparr>]\<rparr>)))
             else if kind j = upscaling then add_upscale_layer m1 r
             else if kind j = live_preview \<and> length (results j) > 0 then
               Inr (m1\<lparr>live_result := Some (results j ! 0)\<rparr>)
             else Inr m1)
            (\<lambda>m2.
               let m3 = slot (update_preview
                                (m2\<lparr>progress := 1, jobs := notify_finished (jobs m2) r\<rparr>))
               in if kind j \<noteq> diffusion then
                    and_then (remove (jobs m3) r) (\<lambda>q. Inr (m3\<lparr>jobs := q\<rparr>))
                  else if kind j = diffusion \<and> layer m3 = None \<and> id' j \<noteq> None \<and>
                          id' j \<noteq> Some [] then
                    Inr (slot (update_preview (m3\<lparr>jobs := select (jobs m3) (the (id' j)) 0\<rparr>)))
                  else Inr m3))"

definition handle_message :: "rat \<Rightarrow> Model \<Rightarrow> ClientMessage \<Rightarrow> error + Model" where
  "handle_message budget m message =
     (case find' (jobs m) (job_id message) of
        None \<Rightarrow> Inr (m\<lparr>logged := logged m @ [message]\<rparr>)
      | Some r \<Rightarrow>
          (case event message of
             progress_event \<Rightarrow>
               Inr (report_progress (m\<lparr>jobs := notify_started (jobs m) r\<rparr>) (progress' message))
           | finished_event \<Rightarrow> handle_finished budget m r message
           | interrupted_event \<Rightarrow>
               Inr (report_progress
                      (m\<lparr>jobs := update_job r (\<lambda>j. j\<lparr>state := cancelled\<rparr>) (jobs m)\<rparr>) 0)
           | error_event \<Rightarrow>
               Inr (report_error
                      (m\<lparr>jobs := update_job r (\<lambda>j. j\<lparr>state := cancelled\<rparr>) (jobs m)\<rparr>)
                      (''Server execution error: '' @ error' message))))"

section \<open>Generation dispatch\<close>

text \<open>
  What is not part of the source at hand and answers during one call of \<open>generate\<close>: the
  document's colour mode check, its extent and selection mask, its projection
  \<open>get_image(bounds, exclude_layers)\<close> and \<open>get_layer_image\<close>, whether a layer's bounds are
  empty, the three bounds computations of \<open>workflow.py\<close> and \<open>image.py\<close>, the property
  \<open>is_lines\<close> of a control mode, and \<open>Image.make_opaque\<close>.
\<close>

record GenerateEnv =
  check_color_mode :: "bool \<times> string option"
  extent :: "int \<times> int"
  create_mask_from_selection :: "Mask option \<times> Bounds option"
  compute_bounds :: "int \<times> int \<Rightarrow> Bounds option \<Rightarrow> rat \<Rightarrow> Bounds"
  doc_get_image :: "Bounds \<Rightarrow> nat list \<Rightarrow> Image"
  get_layer_image :: "nat \<Rightarrow> Bounds option \<Rightarrow> Image"
  bounds_isEmpty :: "nat \<Rightarrow> bool"
  apply_crop :: "Bounds \<Rightarrow> Bounds \<Rightarrow> Bounds"
  minimum_size :: "Bounds \<Rightarrow> int \<Rightarrow> int \<times> int \<Rightarrow> Bounds"
  is_lines :: "ControlMode \<Rightarrow> bool"
  make_opaque :: "Image \<Rightarrow> Image"

record GenerateArgs =
  arg_bounds :: Bounds
  arg_conditioning :: Conditioning
  arg_image :: "Image option"
  arg_mask :: "Mask option"

text \<open>
  The comprehension of \<open>_get_current_image\<close>: it reads \<open>c.image\<close> for every control layer
  whose mode is neither \<open>image\<close> nor \<open>blur\<close>, and a \<open>ControlLayer\<close> has no such attribute, so
  the first such layer raises \<open>AttributeError\<close>; without one the list is empty.
\<close>

fun exclude_control :: "ControlLayer list \<Rightarrow> ref list \<Rightarrow> error + nat list" where
  "exclude_control cls [] = Inr []"
| "exclude_control cls (c # cs) =
     (if mode (cls ! c) \<noteq> image_mode \<and> mode (cls ! c) \<noteq> blur then Inl AttributeError
      else exclude_control cls cs)"

definition get_current_image' :: "Model \<Rightarrow> GenerateEnv \<Rightarrow> Bounds \<Rightarrow> error + Image" where
  "get_current_image' m env b =
     and_then (exclude_control (control_layers m) (control' m))
       (\<lambda>exclude. Inr (doc_get_image env b
                         (case layer m of None \<Rightarrow> exclude | Some l \<Rightarrow> exclude @ [l])))"

text \<open>
  \<open>ControlLayer.get_image\<close>. The property \<open>layer\<close> asserts that the layer observer still finds
  the backing layer; the observer is taken to find the layers attached to the document.
\<close>

definition get_image :: "Model \<Rightarrow> GenerateEnv \<Rightarrow> ref \<Rightarrow> Bounds option \<Rightarrow> error + Control" where
  "get_image m env c b =
     (let cl = control_layers m ! c
      in if layer_id cl \<notin> set (attached (doc m)) then Inl AssertionError
         else
           (let b1 = (if mode cl = image_mode \<and> \<not> bounds_isEmpty env (layer_id cl) then None
                      else b);
                img = get_layer_image env (layer_id cl) b1;
                img1 = (if is_lines env (mode cl) \<or> mode cl = stencil then make_opaque env img
                        else img)
            in Inr (Control (mode cl) img1 (strength' cl) (end' cl))))"

text \<open>\<open>[c.get_image(image_bounds) for c in self.control]\<close>.\<close>

fun get_images :: "Model \<Rightarrow> GenerateEnv \<Rightarrow> ref list \<Rightarrow> Bounds \<Rightarrow> error + Control list" where
  "get_images m env [] b = Inr []"
| "get_images m env (c # cs) b =
     and_then (get_image m env c (Some b))
       (\<lambda>ctl. and_then (get_images m env cs b) (\<lambda>ctls. Inr (ctl # ctls)))"

text \<open>
  \<open>generate\<close> up to the point where it starts the task: the result is the orchestrator and,
  unless the colour mode check failed with a message, the arguments of \<open>_generate\<close>. What
  \<open>generate\<close> raises reaches its caller: the call is not wrapped in \<open>_report_errors\<close>.
\<close>

definition generate :: "Model \<Rightarrow> GenerateEnv \<Rightarrow> error + Model \<times> GenerateArgs option" where
  "generate m env =
     (case check_color_mode env of
        (ok, msg) \<Rightarrow>
          if \<not> ok \<and> msg \<noteq> None \<and> msg \<noteq> Some [] then Inr (report_error m (the msg), None)
          else
            (case create_mask_from_selection env of
               (mask', selection_bounds) \<Rightarrow>
                 (let image_bounds =
                        compute_bounds env (extent env) (map_option mask_bounds mask') (strength m)
                  in and_then
                       (if mask' \<noteq> None \<or> strength m < 1
                        then and_then (get_current_image' m env image_bounds) (\<lambda>i. Inr (Some i))
                        else Inr None)
                       (\<lambda>image.
                          let selection_bounds1 =
                                (case selection_bounds of
                                   None \<Rightarrow> None
                                 | Some sb \<Rightarrow>
                                     Some (minimum_size env (apply_crop env sb image_bounds) 64
                                             (width image_bounds, height image_bounds)))
                          in and_then (get_images m env (control' m) image_bounds)
                               (\<lambda>ctls.
                                  Inr (clear_error m,
                                       Some \<lparr>arg_bounds = image_bounds,
                                             arg_conditioning =
                                               \<lparr>cond_prompt = prompt' m,
                                                cond_negative_prompt = negative_prompt m,
                                                cond_control = ctls,
                                                area = (if strength m = 1 then selection_bounds1
                                                        else None)\<rparr>,
                                             arg_image = image, arg_mask = mask'\<rparr>))))))"

text \<open>
  \<open>_generate\<close>: the request it builds, and the orchestrator after the job was registered
  under the id \<open>enqueued\<close> that \<open>client.enqueue\<close> returned.
\<close>

definition generate' :: "Model \<Rightarrow> GenerateArgs \<Rightarrow> string \<Rightarrow> nat \<Rightarrow> error + Work \<times> Model" where
  "generate' m args enqueued now =
     (let m1 = (if \<not> any_executing (jobs m) then m\<lparr>progress := 0\<rparr> else m);
          image = arg_image args;
          conditioning = arg_conditioning args;
          bounds0 = arg_bounds args;
          bounds1 = (case arg_mask args of None \<Rightarrow> bounds0 | Some mk \<Rightarrow> mask_bounds mk);
          mask' = (case arg_mask args of
                    None \<Rightarrow> None
                  | Some mk \<Rightarrow>
                      Some (mk\<lparr>mask_bounds :=
                              \<lparr>x = x (mask_bounds mk) - x bounds0, y = y (mask_bounds mk) - y bounds0,
                               width = width (mask_bounds mk), height = height (mask_bounds mk)\<rparr>\<rparr>))
      in and_then
           (if image = None \<and> mask' = None then
              (if strength m = 1
               then Inr (workflow_generate (style m) (width bounds1, height bounds1) conditioning)
               else Inl AssertionError)
            else if mask' = None \<and> strength m < 1 then
              (if image \<noteq> None
               then Inr (workflow_refine (style m) (the image) conditioning (strength m))
               else Inl AssertionError)
            else if strength m = 1 then
              (if image \<noteq> None \<and> mask' \<noteq> None
               then Inr (workflow_inpaint (style m) (the image) (the mask') conditioning)
               else Inl AssertionError)
            else
              (if image \<noteq> None \<and> mask' \<noteq> None \<and> strength m < 1
               then Inr (workflow_refine_region (style m) (the image) (the mask') conditioning
                           (strength m))
               else Inl AssertionError))
           (\<lambda>work. Inr (work,
                        m1\<lparr>jobs := snd (add (jobs m1) enqueued (cond_prompt conditioning) bounds1 now)\<rparr>)))"

text \<open>
  A whole dispatch: \<open>generate\<close>, then the task it started, run on the orchestrator as
  \<open>generate\<close> left it. The result is \<open>None\<close> when the colour mode check failed and no task
  was started.
\<close>

definition dispatch :: "Model \<Rightarrow> GenerateEnv \<Rightarrow> string \<Rightarrow> nat \<Rightarrow> error + (Work \<times> Model) option" where
  "dispatch m env enqueued now =
     and_then (generate m env)
       (\<lambda>started.
          case snd started of
            None \<Rightarrow> Inr None
          | Some args \<Rightarrow> and_then (generate' (fst started) args enqueued now) (\<lambda>built. Inr (Some built)))"

datatype RequestType = plain_generate | refine | inpaint | refine_region

fun request_type :: "Work \<Rightarrow> RequestType" where
  "request_type (workflow_generate s e c) = plain_generate"
| "request_type (workflow_refine s i c v) = refine"
| "request_type (workflow_inpaint s i k c) = inpaint"
| "request_type (workflow_refine_region s i k c v) = refine_region"

section \<open>Sequences of queue operations\<close>

text \<open>
  What the queue's invariants speak about: the accumulated result sizes of the diffusion
  jobs in the deque, the references of a queue being allocated and distinct, and the
  predicate that a job holds results only when it is finished.
\<close>

definition diffusion_total :: "JobQueue \<Rightarrow> rat" where
  "diffusion_total q =
     sum_list (map (\<lambda>r. size_mb (results (objects q ! r)))
                 (filter (\<lambda>r. kind (objects q ! r) = diffusion) (entries q)))"

definition wellformed :: "JobQueue \<Rightarrow> bool" where
  "wellformed q \<longleftrightarrow> distinct (entries q) \<and> list_all (\<lambda>r. r < length (objects q)) (entries q)"

definition results_only_finished :: "JobQueue \<Rightarrow> bool" where
  "results_only_finished q \<longleftrightarrow>
     list_all (\<lambda>r. results (objects q ! r) = [] \<or> state (objects q ! r) = finished) (entries q)"


datatype Op =
    Add string string Bounds nat
  | Remove ref
  | SetResults ref ImageCollection
  | Prune ref

fun apply_op :: "rat \<Rightarrow> JobQueue \<Rightarrow> Op \<Rightarrow> error + JobQueue" where
  "apply_op budget q (Add i p b now) = Inr (snd (add q i p b now))"
| "apply_op budget q (Remove r) = remove q r"
| "apply_op budget q (SetResults r res) = set_results budget q r res"
| "apply_op budget q (Prune keep) = prune budget q keep"

fun run :: "rat \<Rightarrow> JobQueue \<Rightarrow> Op list \<Rightarrow> error + JobQueue" where
  "run budget q [] = Inr q"
| "run budget q (op # ops) = and_then (apply_op budget q op) (\<lambda>q1. run budget q1 ops)"



text \<open>
  What a run shows of the queue: the ids of the jobs in the deque, oldest first, the
  accumulator, and the result sizes of the diffusion jobs in the deque.
\<close>

definition summary :: "error + JobQueue \<Rightarrow> error + string option list \<times> rat \<times> rat" where
  "summary res =
     (case res of
        Inl e \<Rightarrow> Inl e
      | Inr q \<Rightarrow> Inr (map (\<lambda>r. id' (objects q ! r)) (entries q), memory_usage q, diffusion_total q))"

text \<open>The scenarios of the spec, with a history budget of 40 MB.\<close>

definition tile :: Bounds where
  "tile = \<lparr>x = 0, y = 0, width = 512, height = 512\<rparr>"

definition res50 :: ImageCollection where
  "res50 = [Image 0 52428800]"

definition res10 :: ImageCollection where
  "res10 = [Image 1 10485760]"

text \<open>
  The queue inside \<open>set_results\<close> for J2, at the call of \<open>prune\<close>: J1 is still queued and
  holds no results, J2 has just received 50 MB.
\<close>

definition J2_before_prune :: JobQueue where
  "J2_before_prune =
     \<lparr>objects = [Job_init (Some ''J1'') diffusion ''cat'' tile 0,
                 (Job_init (Some ''J2'') diffusion ''dog'' tile 1)\<lparr>results := res50\<rparr>],
      entries = [0, 1], selection = None, memory_usage = 50,
      emitted = [count_changed, count_changed]\<rparr>"

definition J1_results :: "Op list" where
  "J1_results = [Add ''J1'' ''cat'' tile 0, SetResults 0 res50]"

definition J1_J2_results :: "Op list" where
  "J1_J2_results = J1_results @ [Add ''J2'' ''dog'' tile 1, SetResults 1 res10]"

definition J1_removed :: "Op list" where
  "J1_removed = J1_results @ [Remove 0]"

definition J1_results_twice :: "Op list" where
  "J1_results_twice = [Add ''J1'' ''cat'' tile 0, SetResults 0 res10, SetResults 0 res10]"

definition J1_removed_then_results :: "Op list" where
  "J1_removed_then_results = [Add ''J1'' ''cat'' tile 0, Remove 0, SetResults 0 res10]"

definition J1_results_J2_waiting :: "Op list" where
  "J1_results_J2_waiting = [Add ''J1'' ''cat'' tile 0, Add ''J2'' ''dog'' tile 1, SetResults 0 res50]"

section \<open>An orchestrator to run the scenarios on\<close>

text \<open>
  \<open>Model.__init__\<close> with the defaults of the class attributes, for a connection that has no
  client yet; \<open>default_style\<close> is \<open>Styles.list().default\<close>.
\<close>

definition Model_init :: "Document \<Rightarrow> string \<Rightarrow> Model" where
  "Model_init document default_style =
     \<lparr>doc = document, layer = None, live_result = None, style = default_style, prompt' = [],
      negative_prompt = [], strength = 1, live_is_active = False, progress = 0,
      jobs = JobQueue_init, error = [], can_apply_result = False, control_layers = [],
      control' = [], logged = [], connection_calls = [], unhandled = []\<rparr>"

definition canvas :: Document where
  "canvas = \<lparr>attached = [0], next_node = 1, active_layer = 0, doc_calls = []\<rparr>"

text \<open>An orchestrator with one queued diffusion job J1 and an error left from an earlier dispatch.\<close>

definition studio :: Model where
  "studio =
     (Model_init canvas ''Default'')
       \<lparr>jobs := snd (add JobQueue_init ''J1'' ''cat'' tile 0), progress := 1 / 2,
        error := ''Server execution error: out of memory''\<rparr>"

definition message_for :: "string \<Rightarrow> ClientEvent \<Rightarrow> ClientMessage" where
  "message_for i e =
     \<lparr>event = e, job_id = i, progress' = 1 / 4, images = None, result = None, error' = []\<rparr>"

text \<open>A document of 1024 by 1024 whose collaborators answer with fixed values.\<close>

definition selection_mask :: Mask where
  "selection_mask = \<lparr>mask_bounds = \<lparr>x = 128, y = 128, width = 256, height = 256\<rparr>, mask_image = 7\<rparr>"

definition canvas_env :: "Mask option \<Rightarrow> GenerateEnv" where
  "canvas_env m =
     \<lparr>check_color_mode = (True, None), extent = (1024, 1024),
      create_mask_from_selection = (m, map_option mask_bounds m),
      compute_bounds = (\<lambda>e b s. case b of None \<Rightarrow> \<lparr>x = 0, y = 0, width = fst e, height = snd e\<rparr>
                                  | Some mb \<Rightarrow> mb),
      doc_get_image = (\<lambda>b ex. Image 3 4194304),
      get_layer_image = (\<lambda>l b. Image 4 4194304),
      bounds_isEmpty = (\<lambda>l. False),
      apply_crop = (\<lambda>b c. b),
      minimum_size = (\<lambda>b n e. b),
      is_lines = (\<lambda>k. k = scribble),
      make_opaque = (\<lambda>i. i)\<rparr>"

text \<open>
  An orchestrator with one control layer on the document's layer, in the mode that a new
  control layer has (\<open>ControlLayerList._last_mode\<close> starts as \<open>scribble\<close>), and the same with
  the mode changed to \<open>image\<close>.
\<close>

definition sketching :: "ControlMode \<Rightarrow> rat \<Rightarrow> Model" where
  "sketching k s =
     (Model_init canvas ''Default'')
       \<lparr>control_layers := [\<lparr>mode = k, layer_id = 0, strength' = 1, end' = 1\<rparr>],
        control' := [0], strength := s\<rparr>"

section \<open>Properties of the queue\<close>

lemmas queue_ops =
  add_def add'_def emit_def set_results_def update_job_def Job_init_def remove_def size_mb_def
  collection_size_def JobQueue_init_def and_then_def summary_def diffusion_total_def

lemmas scenarios =
  J1_results_def J1_J2_results_def J1_removed_def J1_results_J2_waiting_def J1_results_twice_def
  J1_removed_then_results_def res50_def res10_def

subsection \<open>What \<open>prune\<close> returns\<close>


lemma prune_result:
  "prune b q k = Inr q' \<Longrightarrow>
     objects q' = objects q \<and> selection q' = selection q \<and> emitted q' = emitted q \<and>
     (\<exists>pre. entries q = pre @ entries q' \<and> k \<notin> set pre \<and>
        memory_usage q' = memory_usage q - sum_list (map (\<lambda>r. size_mb (results (objects q ! r))) pre)) \<and>
     (memory_usage q' \<le> b \<or> (\<exists>rest. entries q' = k # rest))"
proof (induction b q k arbitrary: q' rule: prune.induct)
  case (1 b q k)
  show ?case
  proof (cases "memory_usage q > b")
    case False
    with "1.prems" show ?thesis by (simp add: prune.simps)
  next
    case over: True
    show ?thesis
    proof (cases "entries q")
      case Nil
      with over "1.prems" show ?thesis by (simp add: prune.simps)
    next
      case (Cons r rest)
      show ?thesis
      proof (cases "r = k")
        case True
        with over Cons "1.prems" show ?thesis by (simp add: prune.simps)
      next
        case False
        let ?q1 = "q\<lparr>entries := rest, memory_usage := memory_usage q - size_mb (results (objects q ! r))\<rparr>"
        from over Cons False "1.prems" have step: "prune b ?q1 k = Inr q'"
          by (simp add: prune.simps [of b q k])
        from "1.IH" [OF over Cons False step]
        obtain pre where pre: "rest = pre @ entries q'" "k \<notin> set pre"
          "memory_usage q' = memory_usage q - size_mb (results (objects q ! r))
               - sum_list (map (\<lambda>r. size_mb (results (objects q ! r))) pre)"
          and rest: "objects q' = objects q" "selection q' = selection q" "emitted q' = emitted q"
            "memory_usage q' \<le> b \<or> (\<exists>rest. entries q' = k # rest)"
          by auto
        have "entries q = (r # pre) @ entries q' \<and> k \<notin> set (r # pre) \<and>
           memory_usage q' = memory_usage q - sum_list (map (\<lambda>r. size_mb (results (objects q ! r))) (r # pre))"
          using pre Cons False by simp
        with rest show ?thesis by blast
      qed
    qed
  qed
qed

lemma prune_returns:
  "k \<in> set (entries q) \<Longrightarrow> \<exists>q'. prune b q k = Inr q'"
proof (induction b q k rule: prune.induct)
  case (1 b q k)
  show ?case
  proof (cases "memory_usage q > b")
    case False
    then show ?thesis by (simp add: prune.simps)
  next
    case over: True
    from "1.prems" obtain r rest where Cons: "entries q = r # rest" by (cases "entries q") auto
    show ?thesis
    proof (cases "r = k")
      case True
      with over Cons show ?thesis by (simp add: prune.simps)
    next
      case False
      with "1.prems" Cons have "k \<in> set rest" by auto
      with "1.IH" [OF over Cons False] over Cons False show ?thesis
        by (simp add: prune.simps [of b q k])
    qed
  qed
qed

lemma prune_relabel:
  assumes "results (f (objects q ! r)) = results (objects q ! r)"
  shows "prune b (update_job r f q) k = map_sum id (update_job r f) (prune b q k)"
  using assms
proof (induction b q k rule: prune.induct)
  case (1 b q k)
  have same: "results (objects (update_job r f q) ! r0) = results (objects q ! r0)" for r0
    using "1.prems" by (cases "r < length (objects q)") (auto simp: update_job_def nth_list_update list_update_beyond)
  show ?case
  proof (cases "memory_usage q > b")
    case False
    then show ?thesis by (simp add: prune.simps update_job_def)
  next
    case over: True
    show ?thesis
    proof (cases "entries q")
      case Nil
      with over show ?thesis by (simp add: prune.simps update_job_def)
    next
      case (Cons r0 rest)
      show ?thesis
      proof (cases "r0 = k")
        case True
        with over Cons show ?thesis by (simp add: prune.simps update_job_def)
      next
        case False
        let ?q1 = "q\<lparr>entries := rest, memory_usage := memory_usage q - size_mb (results (objects q ! r0))\<rparr>"
        have "results (f (objects ?q1 ! r)) = results (objects ?q1 ! r)" using "1.prems" by simp
        from "1.IH" [OF over Cons False this]
        have IH: "prune b (update_job r f ?q1) k = map_sum id (update_job r f) (prune b ?q1 k)" .
        have upd: "update_job r f ?q1 =
           (update_job r f q)\<lparr>entries := rest,
              memory_usage := memory_usage (update_job r f q)
                 - size_mb (results (objects (update_job r f q) ! r0))\<rparr>"
          using same [of r0] by (simp add: update_job_def)
        have "prune b (update_job r f q) k = prune b (update_job r f ?q1) k"
          using over Cons False by (subst prune.simps, subst upd) (simp add: update_job_def)
        also have "\<dots> = map_sum id (update_job r f) (prune b ?q1 k)" by (rule IH)
        also have "prune b ?q1 k = prune b q k"
          using over Cons False by (simp add: prune.simps [of b q k])
        finally show ?thesis .
      qed
    qed
  qed
qed

subsection \<open>The accumulator along a run\<close>










subsection \<open>Dispatch and reconciliation\<close>

lemma find'_in_entries: "find' q i = Some r \<Longrightarrow> r \<in> set (entries q) \<and> id' (objects q ! r) = Some i"
  by (auto simp: find'_def find_Some_iff)

lemma strength_clear_error: "strength (clear_error m) = strength m"
  by (simp add: clear_error_def)

lemma generate'_type:
  assumes "arg_image args \<noteq> None \<longleftrightarrow> arg_mask args \<noteq> None \<or> strength m < 1"
    and "strength m \<le> 1"
  shows "\<exists>w m'. generate' m args enqueued now = Inr (w, m') \<and>
     request_type w =
       (if arg_mask args = None then (if strength m = 1 then plain_generate else refine)
        else (if strength m = 1 then inpaint else refine_region))"
  using assms
  by (cases "arg_mask args"; cases "arg_image args")
     (auto simp: generate'_def Let_def and_then_def)

subsection \<open>Results only on finished jobs\<close>

lemma rof_iff:
  "results_only_finished q \<longleftrightarrow>
     (\<forall>r\<in>set (entries q). results (objects q ! r) = [] \<or> state (objects q ! r) = finished)"
  by (simp add: results_only_finished_def list_all_iff)

lemma rof_add':
  assumes "wellformed q" "results_only_finished q" "results j = []"
  shows "results_only_finished (snd (add' q j))"
proof -
  from assms(1) have "\<forall>r\<in>set (entries q). (objects q @ [j]) ! r = objects q ! r"
    by (simp add: wellformed_def list_all_iff nth_append)
  with assms(2,3) show ?thesis
    by (simp add: rof_iff add'_def emit_def Let_def)
qed

lemma rof_remove:
  "results_only_finished q \<Longrightarrow> remove q r = Inr q' \<Longrightarrow> results_only_finished q'"
  by (auto simp: rof_iff remove_def emit_def split: if_splits dest: notin_set_remove1)

lemma rof_prune:
  "results_only_finished q \<Longrightarrow> prune b q k = Inr q' \<Longrightarrow> results_only_finished q'"
  using prune_result [of b q k q'] by (auto simp: rof_iff)

lemma rof_select: "results_only_finished q \<Longrightarrow> results_only_finished (select q i n)"
  by (simp add: rof_iff select_def emit_def)

lemma nth_update_cases:
  "(xs[r := v]) ! n = (if n = r \<and> r < length xs then v else xs ! n)"
  by (cases "r < length xs") (auto simp: nth_list_update list_update_beyond)

lemma rof_notify_finished:
  "results_only_finished q \<Longrightarrow> results_only_finished (notify_finished q r)"
  by (simp add: rof_iff notify_finished_def emit_def update_job_def nth_update_cases)

lemma rof_notify_started:
  "results_only_finished q \<Longrightarrow> results (objects q ! r) = [] \<Longrightarrow>
   results_only_finished (notify_started q r)"
  by (auto simp: rof_iff notify_started_def emit_def update_job_def nth_update_cases)

lemma set_results_effect:
  assumes "set_results b q r res = Inr q1"
  shows "objects q1 = (objects q)[r := (objects q ! r)\<lparr>results := res\<rparr>] \<and>
         set (entries q1) \<subseteq> set (entries q)"
proof (cases "kind (objects (update_job r (\<lambda>j. j\<lparr>results := res\<rparr>) q) ! r) = diffusion")
  case True
  with assms have "prune b ((update_job r (\<lambda>j. j\<lparr>results := res\<rparr>) q)
       \<lparr>memory_usage := memory_usage (update_job r (\<lambda>j. j\<lparr>results := res\<rparr>) q) + size_mb res\<rparr>) r = Inr q1"
    by (simp add: set_results_def Let_def)
  from prune_result [OF this] show ?thesis by (auto simp: update_job_def)
next
  case False
  with assms show ?thesis by (auto simp: set_results_def Let_def update_job_def)
qed

lemma rof_after_finished:
  assumes "results_only_finished q" "objects q1 = (objects q)[r := (objects q ! r)\<lparr>results := res\<rparr>]"
    "set (entries q1) \<subseteq> set (entries q)"
  shows "results_only_finished (notify_finished q1 r)"
  using assms
  by (auto simp: rof_iff notify_finished_def emit_def update_job_def nth_update_cases)

lemma rof_set_results_finished:
  "results_only_finished q \<Longrightarrow> set_results b q r res = Inr q1 \<Longrightarrow>
   results_only_finished (notify_finished q1 r)"
  using set_results_effect [of b q r res q1] rof_after_finished [of q q1 r res] by blast

lemma and_then_Inr: "and_then a f = Inr v \<Longrightarrow> \<exists>u. a = Inr u \<and> f u = Inr v"
  by (cases a) (simp_all add: and_then_def)

lemma jobs_add_control_layer: "add_control_layer m r res = Inr (l, m') \<Longrightarrow> jobs m' = jobs m"
  by (auto simp: add_control_layer_def Let_def split: option.splits if_splits prod.splits)

lemma jobs_add_upscale_layer: "add_upscale_layer m r = Inr m' \<Longrightarrow> jobs m' = jobs m"
  by (auto simp: add_upscale_layer_def Let_def split: option.splits if_splits prod.splits)

lemma jobs_show_preview: "jobs (snd (show_preview m i n)) = jobs m"
  by (auto simp: show_preview_def Let_def insert_layer_def new_node_def
           split: option.splits sum.splits if_splits prod.splits)

lemma jobs_update_preview: "jobs (snd (update_preview m)) = jobs m"
proof (cases "selection (jobs m)")
  case None
  then show ?thesis by (simp add: update_preview_def hide_preview_def split: option.splits)
next
  case (Some s)
  obtain e m1 where sp: "show_preview m (job s) (image s) = (e, m1)" by force
  with jobs_show_preview [of m "job s" "image s"] have "jobs m1 = jobs m" by simp
  with Some sp show ?thesis by (cases e) (simp_all add: update_preview_def)
qed

lemma jobs_slot: "jobs (slot (update_preview m)) = jobs m"
proof -
  obtain e m1 where u: "update_preview m = (e, m1)" by force
  with jobs_update_preview [of m] have "jobs m1 = jobs m" by simp
  with u show ?thesis by (cases e) (simp_all add: slot_def)
qed

lemma finished_kind_step:
  assumes "(if kind j = control_layer then
               (case control j of
                  None \<Rightarrow> Inl AssertionError
                | Some c \<Rightarrow>
                    and_then (add_control_layer m1 r res)
                      (\<lambda>(l, m2). Inr (m2\<lparr>control_layers :=
                          (control_layers m2)[c := (control_layers m2 ! c)\<lparr>layer_id := l\<rparr>]\<rparr>)))
             else if kind j = upscaling then add_upscale_layer m1 r
             else if kind j = live_preview \<and> length (results j) > 0 then
               Inr (m1\<lparr>live_result := Some (results j ! 0)\<rparr>)
             else Inr m1) = Inr m2"
  shows "jobs m2 = jobs m1"
  using assms
  by (auto simp: and_then_def split: option.splits if_splits sum.splits prod.splits
           dest: jobs_add_control_layer jobs_add_upscale_layer)

lemma rof_handle_finished:
  assumes "results_only_finished (jobs m)" and hf: "handle_finished b m r message = Inr m'"
  shows "results_only_finished (jobs m')"
proof -
  from and_then_Inr [OF hf [unfolded handle_finished_def]]
  obtain m1 where s1: "(case images message of None \<Rightarrow> Inr m
        | Some imgs \<Rightarrow> if imgs \<noteq> [] then and_then (set_results b (jobs m) r imgs) (\<lambda>q. Inr (m\<lparr>jobs := q\<rparr>))
            else Inr m) = Inr m1"
    and rest1: "(let j = objects (jobs m1) ! r in
          and_then
            (if kind j = control_layer then
               (case control j of
                  None \<Rightarrow> Inl AssertionError
                | Some c \<Rightarrow>
                    and_then (add_control_layer m1 r (result message))
                      (\<lambda>(l, m2). Inr (m2\<lparr>control_layers :=
                          (control_layers m2)[c := (control_layers m2 ! c)\<lparr>layer_id := l\<rparr>]\<rparr>)))
             else if kind j = upscaling then add_upscale_layer m1 r
             else if kind j = live_preview \<and> length (results j) > 0 then
               Inr (m1\<lparr>live_result := Some (results j ! 0)\<rparr>)
             else Inr m1)
            (\<lambda>m2.
               let m3 = slot (update_preview
                                (m2\<lparr>progress := 1, jobs := notify_finished (jobs m2) r\<rparr>))
               in if kind j \<noteq> diffusion then
                    and_then (remove (jobs m3) r) (\<lambda>q. Inr (m3\<lparr>jobs := q\<rparr>))
                  else if kind j = diffusion \<and> layer m3 = None \<and> id' j \<noteq> None \<and>
                          id' j \<noteq> Some [] then
                    Inr (slot (update_preview (m3\<lparr>jobs := select (jobs m3) (the (id' j)) 0\<rparr>)))
                  else Inr m3)) = Inr m'"
    by blast
  from s1 have after1: "jobs m1 = jobs m \<or> (\<exists>res. set_results b (jobs m) r res = Inr (jobs m1))"
    by (auto simp: and_then_def split: option.splits if_splits sum.splits)
  define j where "j = objects (jobs m1) ! r"
  from and_then_Inr [OF rest1 [unfolded Let_def, folded j_def]]
  obtain m2 where s2: "(if kind j = control_layer then
               (case control j of
                  None \<Rightarrow> Inl AssertionError
                | Some c \<Rightarrow>
                    and_then (add_control_layer m1 r (result message))
                      (\<lambda>(l, m2). Inr (m2\<lparr>control_layers :=
                          (control_layers m2)[c := (control_layers m2 ! c)\<lparr>layer_id := l\<rparr>]\<rparr>)))
             else if kind j = upscaling then add_upscale_layer m1 r
             else if kind j = live_preview \<and> length (results j) > 0 then
               Inr (m1\<lparr>live_result := Some (results j ! 0)\<rparr>)
             else Inr m1) = Inr m2"
    and s4: "(if kind j \<noteq> diffusion then
                    and_then (remove (jobs (slot (update_preview
                                (m2\<lparr>progress := 1, jobs := notify_finished (jobs m2) r\<rparr>)))) r)
                       (\<lambda>q. Inr ((slot (update_preview
                                (m2\<lparr>progress := 1, jobs := notify_finished (jobs m2) r\<rparr>)))\<lparr>jobs := q\<rparr>))
                  else if kind j = diffusion \<and> layer (slot (update_preview
                                (m2\<lparr>progress := 1, jobs := notify_finished (jobs m2) r\<rparr>))) = None \<and> id' j \<noteq> None \<and>
                          id' j \<noteq> Some [] then
                    Inr (slot (update_preview ((slot (update_preview
                                (m2\<lparr>progress := 1, jobs := notify_finished (jobs m2) r\<rparr>)))\<lparr>jobs := select (jobs (slot (update_preview
                                (m2\<lparr>progress := 1, jobs := notify_finished (jobs m2) r\<rparr>)))) (the (id' j)) 0\<rparr>)))
                  else Inr (slot (update_preview
                                (m2\<lparr>progress := 1, jobs := notify_finished (jobs m2) r\<rparr>)))) = Inr m'"
    by blast
  define m3 where "m3 = slot (update_preview (m2\<lparr>progress := 1, jobs := notify_finished (jobs m2) r\<rparr>))"
  from finished_kind_step [OF s2] have after2: "jobs m2 = jobs m1" .
  have after3: "jobs m3 = notify_finished (jobs m1) r"
    by (simp add: m3_def jobs_slot after2)
  have rof3: "results_only_finished (jobs m3)"
    using after1 assms(1) after3 rof_notify_finished rof_set_results_finished by auto
  from s4 [folded m3_def] have "(\<exists>q. remove (jobs m3) r = Inr q \<and> jobs m' = q) \<or>
      jobs m' = select (jobs m3) (the (id' j)) 0 \<or> jobs m' = jobs m3"
    by (auto simp: and_then_def jobs_slot split: if_splits sum.splits)
  with rof3 show ?thesis
    using rof_remove rof_select by auto
qed

lemma rof_handle_message_finished:
  assumes "results_only_finished (jobs m)" "event message = finished_event"
    "handle_message b m message = Inr m'"
  shows "results_only_finished (jobs m')"
proof (cases "find' (jobs m) (job_id message)")
  case None
  with assms show ?thesis by (auto simp: handle_message_def)
next
  case (Some r)
  with assms(2,3) have "handle_finished b m r message = Inr m'" by (simp add: handle_message_def)
  from rof_handle_finished [OF assms(1) this] show ?thesis .
qed

lemma and_then_Inr_intro: "a = Inr u \<Longrightarrow> f u = Inr v \<Longrightarrow> and_then a f = Inr v"
  by (simp add: and_then_def)

lemma set_results_returns:
  assumes "r \<in> set (entries q)"
  shows "\<exists>q'. set_results b q r res = Inr q' \<and> r \<in> set (entries q') \<and>
           objects q' = (objects q)[r := (objects q ! r)\<lparr>results := res\<rparr>]"
proof (cases "kind (objects (update_job r (\<lambda>j. j\<lparr>results := res\<rparr>) q) ! r) = diffusion")
  case True
  let ?q2 = "(update_job r (\<lambda>j. j\<lparr>results := res\<rparr>) q)
       \<lparr>memory_usage := memory_usage (update_job r (\<lambda>j. j\<lparr>results := res\<rparr>) q) + size_mb res\<rparr>"
  from assms have "r \<in> set (entries ?q2)" by (simp add: update_job_def)
  from prune_returns [OF this] obtain q' where p: "prune b ?q2 r = Inr q'" by blast
  from prune_result [OF p] \<open>r \<in> set (entries ?q2)\<close>
  have "r \<in> set (entries q')" "objects q' = (objects q)[r := (objects q ! r)\<lparr>results := res\<rparr>]"
    by (auto simp: update_job_def)
  with p True show ?thesis by (simp add: set_results_def Let_def)
next
  case False
  with assms show ?thesis by (simp add: set_results_def Let_def update_job_def)
qed

lemma handle_finished_returns:
  assumes inq: "r \<in> set (entries (jobs m))" and alloc: "r < length (objects (jobs m))"
    and ctl: "kind (objects (jobs m) ! r) = control_layer \<longrightarrow> control (objects (jobs m) ! r) \<noteq> None"
    and ups: "kind (objects (jobs m) ! r) = upscaling \<longrightarrow>
                (\<exists>imgs. images message = Some imgs \<and> imgs \<noteq> []) \<or> results (objects (jobs m) ! r) \<noteq> []"
  shows "\<exists>m'. handle_finished b m r message = Inr m'"
proof -
  let ?j0 = "objects (jobs m) ! r"
  have "\<exists>m1. (case images message of None \<Rightarrow> Inr m
        | Some imgs \<Rightarrow> if imgs \<noteq> [] then and_then (set_results b (jobs m) r imgs) (\<lambda>q. Inr (m\<lparr>jobs := q\<rparr>))
            else Inr m) = Inr m1 \<and> r \<in> set (entries (jobs m1)) \<and>
        kind (objects (jobs m1) ! r) = kind ?j0 \<and> control (objects (jobs m1) ! r) = control ?j0 \<and>
        (kind ?j0 = upscaling \<longrightarrow> results (objects (jobs m1) ! r) \<noteq> [])"
  proof (cases "\<exists>imgs. images message = Some imgs \<and> imgs \<noteq> []")
    case True
    then obtain imgs where i: "images message = Some imgs" "imgs \<noteq> []" by blast
    from set_results_returns [OF inq, of b imgs] obtain q' where
      "set_results b (jobs m) r imgs = Inr q'" "r \<in> set (entries q')"
      "objects q' = (objects (jobs m))[r := ?j0\<lparr>results := imgs\<rparr>]"
      by blast
    with i alloc show ?thesis by (simp add: and_then_def)
  next
    case False
    with inq ups show ?thesis by (auto split: option.splits)
  qed
  then obtain m1 where s1: "(case images message of None \<Rightarrow> Inr m
        | Some imgs \<Rightarrow> if imgs \<noteq> [] then and_then (set_results b (jobs m) r imgs) (\<lambda>q. Inr (m\<lparr>jobs := q\<rparr>))
            else Inr m) = Inr m1"
    and in1: "r \<in> set (entries (jobs m1))"
    and k1: "kind (objects (jobs m1) ! r) = kind ?j0"
    and c1: "control (objects (jobs m1) ! r) = control ?j0"
    and u1: "kind ?j0 = upscaling \<longrightarrow> results (objects (jobs m1) ! r) \<noteq> []"
    by blast
  define j where "j = objects (jobs m1) ! r"
  have "\<exists>m2. (if kind j = control_layer then
               (case control j of
                  None \<Rightarrow> Inl AssertionError
                | Some c \<Rightarrow>
                    and_then (add_control_layer m1 r (result message))
                      (\<lambda>(l, m2). Inr (m2\<lparr>control_layers :=
                          (control_layers m2)[c := (control_layers m2 ! c)\<lparr>layer_id := l\<rparr>]\<rparr>)))
             else if kind j = upscaling then add_upscale_layer m1 r
             else if kind j = live_preview \<and> length (results j) > 0 then
               Inr (m1\<lparr>live_result := Some (results j ! 0)\<rparr>)
             else Inr m1) = Inr m2"
    using ctl u1 k1 c1
    by (auto simp: j_def add_control_layer_def add_upscale_layer_def and_then_def Let_def
          insert_layer_def insert_vector_layer_def new_node_def split: option.splits)
  then obtain m2 where s2: "(if kind j = control_layer then
               (case control j of
                  None \<Rightarrow> Inl AssertionError
                | Some c \<Rightarrow>
                    and_then (add_control_layer m1 r (result message))
                      (\<lambda>(l, m2). Inr (m2\<lparr>control_layers :=
                          (control_layers m2)[c := (control_layers m2 ! c)\<lparr>layer_id := l\<rparr>]\<rparr>)))
             else if kind j = upscaling then add_upscale_layer m1 r
             else if kind j = live_preview \<and> length (results j) > 0 then
               Inr (m1\<lparr>live_result := Some (results j ! 0)\<rparr>)
             else Inr m1) = Inr m2"
    by blast
  from finished_kind_step [OF s2] have j2: "jobs m2 = jobs m1" .
  define m3 where "m3 = slot (update_preview (m2\<lparr>progress := 1, jobs := notify_finished (jobs m2) r\<rparr>))"
  have "jobs m3 = notify_finished (jobs m1) r" by (simp add: m3_def jobs_slot j2)
  with in1 have "r \<in> set (entries (jobs m3))"
    by (simp add: notify_finished_def emit_def update_job_def)
  then have "\<exists>m'. (if kind j \<noteq> diffusion then
                    and_then (remove (jobs m3) r) (\<lambda>q. Inr (m3\<lparr>jobs := q\<rparr>))
                  else if kind j = diffusion \<and> layer m3 = None \<and> id' j \<noteq> None \<and>
                          id' j \<noteq> Some [] then
                    Inr (slot (update_preview (m3\<lparr>jobs := select (jobs m3) (the (id' j)) 0\<rparr>)))
                  else Inr m3) = Inr m'"
    by (simp add: remove_def and_then_def)
  then obtain m' where s4: "(if kind j \<noteq> diffusion then
                    and_then (remove (jobs m3) r) (\<lambda>q. Inr (m3\<lparr>jobs := q\<rparr>))
                  else if kind j = diffusion \<and> layer m3 = None \<and> id' j \<noteq> None \<and>
                          id' j \<noteq> Some [] then
                    Inr (slot (update_preview (m3\<lparr>jobs := select (jobs m3) (the (id' j)) 0\<rparr>)))
                  else Inr m3) = Inr m'"
    by blast
  have "handle_finished b m r message = Inr m'"
    unfolding handle_finished_def
    apply (rule and_then_Inr_intro [OF s1])
    apply (unfold Let_def)
    apply (fold j_def)
    apply (rule and_then_Inr_intro [OF s2])
    apply (fold m3_def)
    apply (rule s4)
    done
  then show ?thesis by blast
qed

lemma studio_finished:
  "\<exists>m'. handle_message 40 studio ((message_for ''J1'' finished_event)\<lparr>images := Some res50\<rparr>) = Inr m' \<and>
      results (objects (jobs m') ! 0) = res50 \<and> state (objects (jobs m') ! 0) = finished \<and>
      entries (jobs m') = [0] \<and> layer m' = Some 1 \<and> unhandled m' = []"
  by (simp add: handle_message_def handle_finished_def studio_def message_for_def Model_init_def
        find'_def queue_ops prune.simps res50_def notify_finished_def update_preview_def
        hide_preview_def show_preview_def select_def getitem_def insert_layer_def new_node_def
        doc_call_def canvas_def slot_def Let_def)

lemma studio_finished_without_images:
  "\<exists>m'. handle_message 40 studio (message_for ''J1'' finished_event) = Inr m' \<and>
      results (objects (jobs m') ! 0) = [] \<and> state (objects (jobs m') ! 0) = finished \<and>
      entries (jobs m') = [0] \<and> layer m' = None \<and> unhandled m' = [IndexError]"
  by (simp add: handle_message_def handle_finished_def studio_def message_for_def Model_init_def
        find'_def queue_ops prune.simps res50_def notify_finished_def update_preview_def
        hide_preview_def show_preview_def select_def getitem_def insert_layer_def new_node_def
        doc_call_def canvas_def slot_def Let_def)

lemma two_jobs_finished:
  "\<exists>m'. and_then
      (handle_message 40 (studio\<lparr>jobs := snd (add (jobs studio) ''J2'' ''dog'' tile 1)\<rparr>)
         ((message_for ''J1'' finished_event)\<lparr>images := Some res50\<rparr>))
      (\<lambda>m1. handle_message 40 m1 ((message_for ''J2'' finished_event)\<lparr>images := Some res10\<rparr>)) = Inr m' \<and>
      entries (jobs m') = [1] \<and> memory_usage (jobs m') = 10 \<and>
      state (objects (jobs m') ! 1) = finished \<and> unhandled m' = [AssertionError]"
  by (simp add: handle_message_def handle_finished_def studio_def message_for_def Model_init_def
        find'_def queue_ops prune.simps res50_def res10_def notify_finished_def update_preview_def
        hide_preview_def show_preview_def select_def getitem_def insert_layer_def new_node_def
        doc_call_def canvas_def slot_def Let_def)

subsection \<open>The claims\<close>

text \<open>
  C3. With a history budget of 40 MB: after diffusion job J1 is added and receives a result
  of 50 MB, J1 is still in the queue and the accumulator is 50 MB; after diffusion job J2
  is then added and receives a result of 10 MB, J1 has been evicted, the accumulator is
  10 MB and J2 is the only job left.
\<close>

theorem scenario_protected_job_is_evicted_later:
  "summary (run 40 JobQueue_init J1_results) = Inr ([Some ''J1''], 50, 50) \<and>
   summary (run 40 JobQueue_init J1_J2_results) = Inr ([Some ''J2''], 10, 10)"
  by (simp add: scenarios queue_ops prune.simps)

text \<open>
  C8. \<open>find\<close> returns \<open>None\<close> whenever no job in the queue carries the id. It cannot raise:
  \<open>find'\<close> is a total function into \<open>ref option\<close>, with no error among its results.
\<close>

theorem find_unknown_id:
  "\<forall>r\<in>set (entries q). id' (objects q ! r) \<noteq> Some i \<Longrightarrow> find' q i = None"
  by (simp add: find'_def find_None_iff)

theorem find_unknown_id_witness:
  "find' (snd (add JobQueue_init ''J1'' ''cat'' tile 0)) ''J7'' = None"
proof -
  have unknown: "\<forall>r\<in>set (entries (snd (add JobQueue_init ''J1'' ''cat'' tile 0))).
      id' (objects (snd (add JobQueue_init ''J1'' ''cat'' tile 0)) ! r) \<noteq> Some ''J7''"
    by (simp add: queue_ops)
  from find_unknown_id [OF unknown] show ?thesis .
qed

text \<open>
  C9. There is a reachable state in which \<open>prune\<close> raises \<open>IndexError\<close>: after a diffusion
  job was added, received results of 50 MB and was removed, the queue is empty while the
  accumulator is still 50 MB, over the budget of 40 MB, and \<open>prune\<close>, whatever job it is to
  keep, reads the oldest entry of an empty deque.
\<close>

theorem prune_raises_on_emptied_queue:
  "summary (run 40 JobQueue_init J1_removed) = Inr ([], 50, 0) \<and>
   run 40 JobQueue_init (J1_removed @ [Prune keep]) = Inl IndexError"
  by (simp add: scenarios queue_ops prune.simps)




text \<open>
  C2, as stated, fails in its second half: \<open>prune\<close> stops at \<open>keep\<close> and leaves every newer
  job in place. With J1 and J2 queued and 50 MB of results on J1, \<open>prune(keep=J1)\<close> returns
  with the accumulator at 50 MB, over the budget of 40 MB, and J2 still in the queue.
\<close>

theorem prune_leaves_newer_jobs_counterexample:
  "summary (run 40 JobQueue_init (J1_results_J2_waiting @ [Prune 0])) =
     Inr ([Some ''J1'', Some ''J2''], 50, 50)"
  by (simp add: scenarios queue_ops prune.simps)

text \<open>
  C2, amended. \<open>prune(keep)\<close> returns whenever \<open>keep\<close> is in the queue and never removes
  \<open>keep\<close>: what it removes is a front part of the deque without \<open>keep\<close>. After it has
  returned, the accumulator is at most the budget or \<open>keep\<close> is the oldest job left (the
  jobs newer than \<open>keep\<close> are all still there).
\<close>

theorem prune_stops_at_keep:
  "(keep \<in> set (entries q) \<longrightarrow> (\<exists>q'. prune budget q keep = Inr q')) \<and>
   (\<forall>q'. prune budget q keep = Inr q' \<longrightarrow>
      (keep \<in> set (entries q) \<longrightarrow> keep \<in> set (entries q')) \<and>
      (\<exists>pre. entries q = pre @ entries q' \<and> keep \<notin> set pre) \<and>
      (memory_usage q' \<le> budget \<or> (\<exists>rest. entries q' = keep # rest)))"
proof (intro conjI allI impI)
  assume "keep \<in> set (entries q)"
  then show "\<exists>q'. prune budget q keep = Inr q'" by (rule prune_returns)
next
  fix q' assume p: "prune budget q keep = Inr q'"
  from prune_result [OF p] show "\<exists>pre. entries q = pre @ entries q' \<and> keep \<notin> set pre" by blast
  from prune_result [OF p] show "memory_usage q' \<le> budget \<or> (\<exists>rest. entries q' = keep # rest)" by blast
  assume "keep \<in> set (entries q)"
  with prune_result [OF p] show "keep \<in> set (entries q')" by auto
qed

theorem prune_stops_at_keep_witness:
  "\<exists>q'. prune 40 J2_before_prune 1 = Inr q' \<and> entries q' = [1] \<and> memory_usage q' = 50"
proof -
  have "1 \<in> set (entries J2_before_prune)" by (simp add: J2_before_prune_def)
  with prune_stops_at_keep [of 1 J2_before_prune 40]
  obtain q' where "prune 40 J2_before_prune 1 = Inr q'" by blast
  then show ?thesis
    by (auto simp: J2_before_prune_def prune.simps queue_ops res50_def)
qed

text \<open>
  C10, as stated, fails for the protected job: when the oldest entry is \<open>keep\<close>, it stays
  although the accumulator exceeds the budget. Here J1 is the only job, holds 50 MB with a
  budget of 40 MB, and \<open>prune(keep=J1)\<close> leaves it in the queue.
\<close>

theorem prune_spares_oldest_when_kept_counterexample:
  "summary (run 40 JobQueue_init (J1_results @ [Prune 0])) = Inr ([Some ''J1''], 50, 50)"
  by (simp add: scenarios queue_ops prune.simps)

text \<open>
  C10, amended. Whenever the accumulator exceeds the budget and the oldest entry is not
  \<open>keep\<close>, \<open>prune\<close> evicts the oldest entry and subtracts the size of its current results
  (zero when it has none) from the accumulator, then goes on with the rest. Neither the
  lifecycle state nor the kind of that entry is looked at: rewriting both commutes with
  \<open>prune\<close>.
\<close>

theorem prune_evicts_oldest_unless_kept:
  assumes "memory_usage q > budget" and "entries q = r # rest" and "r \<noteq> keep"
  shows "prune budget q keep =
           prune budget
             (q\<lparr>entries := rest,
                memory_usage := memory_usage q - size_mb (results (objects q ! r))\<rparr>) keep \<and>
         prune budget (update_job r (\<lambda>j. j\<lparr>state := s, kind := k\<rparr>) q) keep =
           map_sum id (update_job r (\<lambda>j. j\<lparr>state := s, kind := k\<rparr>)) (prune budget q keep) \<and>
         (\<forall>q'. prune budget q keep = Inr q' \<longrightarrow>
            (\<exists>pre. rest = pre @ entries q' \<and>
               memory_usage q' = memory_usage q - size_mb (results (objects q ! r))
                  - sum_list (map (\<lambda>r. size_mb (results (objects q ! r))) pre)))"
proof (intro conjI allI impI)
  let ?q1 = "q\<lparr>entries := rest,
                memory_usage := memory_usage q - size_mb (results (objects q ! r))\<rparr>"
  show step: "prune budget q keep = prune budget ?q1 keep"
    using assms by (simp add: prune.simps [of budget q keep])
  show "prune budget (update_job r (\<lambda>j. j\<lparr>state := s, kind := k\<rparr>) q) keep =
           map_sum id (update_job r (\<lambda>j. j\<lparr>state := s, kind := k\<rparr>)) (prune budget q keep)"
    by (rule prune_relabel) simp
  fix q' assume "prune budget q keep = Inr q'"
  with step have "prune budget ?q1 keep = Inr q'" by simp
  from prune_result [OF this] show "\<exists>pre. rest = pre @ entries q' \<and>
               memory_usage q' = memory_usage q - size_mb (results (objects q ! r))
                  - sum_list (map (\<lambda>r. size_mb (results (objects q ! r))) pre)"
    by auto
qed

theorem prune_evicts_oldest_unless_kept_witness:
  "summary (prune 40 J2_before_prune 1) = Inr ([Some ''J2''], 50, 50) \<and>
   summary (prune 40 (update_job 0 (\<lambda>j. j\<lparr>state := executing, kind := upscaling\<rparr>) J2_before_prune) 1) = Inr ([Some ''J2''], 50, 50)"
proof -
  have over: "memory_usage J2_before_prune > 40" and oldest: "entries J2_before_prune = 0 # [1]"
    and other: "(0::nat) \<noteq> 1"
    by (simp_all add: J2_before_prune_def)
  from prune_evicts_oldest_unless_kept [OF over oldest other, where s = executing and k = upscaling]
  show ?thesis
    by (simp add: J2_before_prune_def prune.simps queue_ops res50_def)
qed

text \<open>
  C6. For an event whose job id matches no job in the queue, \<open>handle_message\<close> returns
  without raising, and the orchestrator it leaves differs from the one it found in the log
  entry only: jobs, queue, accumulator, progress and error are what they were.
\<close>

theorem handle_message_unknown_job:
  assumes "find' (jobs m) (job_id message) = None"
  shows "handle_message budget m message = Inr (m\<lparr>logged := logged m @ [message]\<rparr>)"
  using assms by (simp add: handle_message_def)

theorem handle_message_unknown_job_witness:
  "handle_message 40 studio (message_for ''J7'' finished_event) =
     Inr (studio\<lparr>logged := [message_for ''J7'' finished_event]\<rparr>)"
proof -
  have unknown: "find' (jobs studio) (job_id (message_for ''J7'' finished_event)) = None"
    by (simp add: studio_def message_for_def find'_def queue_ops)
  from handle_message_unknown_job [OF unknown, of 40] show ?thesis
    by (simp add: studio_def Model_init_def)
qed

text \<open>
  C7. For an \<open>interrupted\<close> event whose job id matches a job in the queue (the first one
  with that id, as \<open>find\<close> returns it), \<open>handle_message\<close> returns with that job's state
  \<open>cancelled\<close>, the progress 0 and the error message unchanged. The queue's references are
  allocated, as every Python reference is.
\<close>

theorem handle_message_interrupted:
  assumes "find' (jobs m) (job_id message) = Some r" 
    and "event message = interrupted_event"
    and "wellformed (jobs m)"
  shows "\<exists>m'. handle_message budget m message = Inr m' \<and>
           state (objects (jobs m') ! r) = cancelled \<and> progress m' = 0 \<and> error m' = error m"
proof -
  from find'_in_entries [OF assms(1)] assms(3) have "r < length (objects (jobs m))"
    by (simp add: wellformed_def list_all_iff)
  with assms(1,2) show ?thesis
    by (simp add: handle_message_def report_progress_def update_job_def)
qed

theorem handle_message_interrupted_witness:
  "\<exists>m'. handle_message 40 studio (message_for ''J1'' interrupted_event) = Inr m' \<and>
      state (objects (jobs m') ! 0) = cancelled \<and> progress m' = 0 \<and> 
      error m' = ''Server execution error: out of memory''"
proof -
  have known: "find' (jobs studio) (job_id (message_for ''J1'' interrupted_event)) = Some 0"
    and ev: "event (message_for ''J1'' interrupted_event) = interrupted_event"
    and wf: "wellformed (jobs studio)"
    by (simp_all add: studio_def message_for_def find'_def queue_ops wellformed_def Model_init_def)
  from handle_message_interrupted [OF known ev wf, of 40] show ?thesis
    by (simp add: studio_def)
qed

text \<open>
  C5, as stated, fails for \<open>set_results\<close>: it attaches the results while the job is still
  queued or executing. A new queue with job J1 satisfies the predicate; after
  \<open>set_results\<close> with 50 MB for J1 it does not.
\<close>

theorem set_results_before_finished_counterexample:
  "map_sum id results_only_finished (run 40 JobQueue_init [Add ''J1'' ''cat'' tile 0]) = Inr True \<and>
   map_sum id results_only_finished (run 40 JobQueue_init J1_results) = Inr False"
  by (simp add: scenarios queue_ops prune.simps results_only_finished_def)

text \<open>
  C5, amended. That every job in the queue has an empty result sequence unless its state is
  \<open>finished\<close> holds of a new queue and is preserved by \<open>add\<close>, \<open>add_control\<close>, \<open>add_upscale\<close>
  and \<open>add_live\<close> (the new job has no results), by \<open>remove\<close>, \<open>prune\<close>, \<open>select\<close> and
  \<open>notify_finished\<close>, by \<open>notify_started\<close> on a job without results, by \<open>set_results\<close>
  followed by \<open>notify_finished\<close> on the same job, and hence by \<open>handle_message\<close> on a
  \<open>finished\<close> event, which calls the two in this order. On such an event \<open>handle_message\<close>
  returns unless an assertion of its own fails: a control layer job without its control
  layer, or an upscaling job left without an image. \<open>set_results\<close> alone does not preserve
  the predicate.
\<close>

theorem results_only_when_finished:
  "results_only_finished JobQueue_init \<and>
   (wellformed q \<and> results_only_finished q \<longrightarrow>
      results_only_finished (snd (add q i p b now)) \<and>
      results_only_finished (snd (add_control q c mode_text b now)) \<and>
      results_only_finished (snd (add_upscale q b now)) \<and>
      results_only_finished (snd (add_live q p b now))) \<and>
   (results_only_finished q \<longrightarrow>
      (\<forall>q'. remove q r = Inr q' \<longrightarrow> results_only_finished q') \<and>
      (\<forall>q'. prune budget q r = Inr q' \<longrightarrow> results_only_finished q') \<and>
      results_only_finished (select q i n) \<and>
      results_only_finished (notify_finished q r) \<and>
      (results (objects q ! r) = [] \<longrightarrow> results_only_finished (notify_started q r)) \<and>
      (\<forall>q'. set_results budget q r res = Inr q' \<longrightarrow>
          results_only_finished (notify_finished q' r))) \<and>
   (results_only_finished (jobs m) \<and> event message = finished_event \<longrightarrow>
      (\<forall>m'. handle_message budget m message = Inr m' \<longrightarrow> results_only_finished (jobs m'))) \<and>
   (wellformed (jobs m) \<and> event message = finished_event \<and>
    find' (jobs m) (job_id message) = Some r \<and>
    (kind (objects (jobs m) ! r) = control_layer \<longrightarrow> control (objects (jobs m) ! r) \<noteq> None) \<and>
    (kind (objects (jobs m) ! r) = upscaling \<longrightarrow>
       (\<exists>imgs. images message = Some imgs \<and> imgs \<noteq> []) \<or>
       results (objects (jobs m) ! r) \<noteq> []) \<longrightarrow>
      (\<exists>m'. handle_message budget m message = Inr m'))"
proof (intro conjI impI allI)
  show "results_only_finished JobQueue_init"
    by (simp add: results_only_finished_def JobQueue_init_def)
next
  assume a: "wellformed q \<and> results_only_finished q"
  then show "results_only_finished (snd (add q i p b now))"
    by (simp add: add_def rof_add' Job_init_def)
  from a show "results_only_finished (snd (add_control q c mode_text b now))"
    by (simp add: add_control_def rof_add' Job_init_def)
  from a show "results_only_finished (snd (add_upscale q b now))"
    by (simp add: add_upscale_def rof_add' Job_init_def)
  from a show "results_only_finished (snd (add_live q p b now))"
    by (simp add: add_live_def rof_add' Job_init_def)
next
  fix q' assume "results_only_finished q" "remove q r = Inr q'"
  then show "results_only_finished q'" by (rule rof_remove)
next
  fix q' assume "results_only_finished q" "prune budget q r = Inr q'"
  then show "results_only_finished q'" by (rule rof_prune)
next
  assume "results_only_finished q"
  then show "results_only_finished (select q i n)" by (rule rof_select)
next
  assume "results_only_finished q"
  then show "results_only_finished (notify_finished q r)" by (rule rof_notify_finished)
next
  assume "results_only_finished q" "results (objects q ! r) = []"
  then show "results_only_finished (notify_started q r)" by (rule rof_notify_started)
next
  fix q' assume "results_only_finished q" "set_results budget q r res = Inr q'"
  then show "results_only_finished (notify_finished q' r)" by (rule rof_set_results_finished)
next
  fix m' assume "results_only_finished (jobs m) \<and> event message = finished_event"
    "handle_message budget m message = Inr m'"
  then show "results_only_finished (jobs m')" using rof_handle_message_finished by blast
next
  assume a: "wellformed (jobs m) \<and> event message = finished_event \<and>
    find' (jobs m) (job_id message) = Some r \<and>
    (kind (objects (jobs m) ! r) = control_layer \<longrightarrow> control (objects (jobs m) ! r) \<noteq> None) \<and>
    (kind (objects (jobs m) ! r) = upscaling \<longrightarrow>
       (\<exists>imgs. images message = Some imgs \<and> imgs \<noteq> []) \<or>
       results (objects (jobs m) ! r) \<noteq> [])"
  then have inq: "r \<in> set (entries (jobs m))" using find'_in_entries by blast
  with a have alloc: "r < length (objects (jobs m))"
    by (simp add: wellformed_def list_all_iff)
  from a handle_finished_returns [OF inq alloc, of message budget]
  obtain m' where "handle_finished budget m r message = Inr m'" by blast
  with a show "\<exists>m'. handle_message budget m message = Inr m'"
    by (simp add: handle_message_def)
qed

theorem results_only_when_finished_witness:
  "(\<exists>m'. handle_message 40 studio ((message_for ''J1'' finished_event)\<lparr>images := Some res50\<rparr>) = Inr m' \<and>
      results (objects (jobs m') ! 0) = res50 \<and> unhandled m' = [] \<and>
      results_only_finished (jobs m')) \<and>
   (\<exists>m'. handle_message 40 studio (message_for ''J1'' finished_event) = Inr m' \<and>
      state (objects (jobs m') ! 0) = finished \<and> unhandled m' = [IndexError] \<and>
      results_only_finished (jobs m'))"
proof -
  have pre: "results_only_finished (jobs studio)"
    by (simp add: studio_def results_only_finished_def queue_ops)
  have ev: "event ((message_for ''J1'' finished_event)\<lparr>images := Some res50\<rparr>) = finished_event"
    "event (message_for ''J1'' finished_event) = finished_event"
    by (simp_all add: message_for_def)
  from studio_finished obtain m1 where
    h1: "handle_message 40 studio ((message_for ''J1'' finished_event)\<lparr>images := Some res50\<rparr>) = Inr m1"
    and r1: "results (objects (jobs m1) ! 0) = res50" "unhandled m1 = []"
    by blast
  from studio_finished_without_images obtain m2 where
    h2: "handle_message 40 studio (message_for ''J1'' finished_event) = Inr m2"
    and r2: "state (objects (jobs m2) ! 0) = finished" "unhandled m2 = [IndexError]"
    by blast
  from results_only_when_finished [where m = studio and budget = 40
      and message = "(message_for ''J1'' finished_event)\<lparr>images := Some res50\<rparr>"] pre ev h1
  have p1: "results_only_finished (jobs m1)" by blast
  from results_only_when_finished [where m = studio and budget = 40
      and message = "message_for ''J1'' finished_event"] pre ev h2
  have p2: "results_only_finished (jobs m2)" by blast
  from h1 r1 p1 h2 r2 p2 show ?thesis by blast
qed

end
